theory Spec2Isabelle
  imports Main
begin

section \<open>Data model\<close>

text \<open>
  The tables of the relational store (\<^verbatim>\<open>schema.sql\<close> and the table set-up script) and
  the model classes built from their rows. Ids are the \<^verbatim>\<open>INT AUTO_INCREMENT\<close> primary keys,
  timestamps are points of a discrete clock, the \<^verbatim>\<open>user_type\<close> ENUM is a datatype, and an
  application's status is the string the code compares and stores.
\<close>

datatype user_type = job_seeker | company | admin

record user =
  user_id :: nat
  userType :: user_type

record company_row =
  company_id :: nat
  company_user_id :: nat

record job_offer =
  job_id :: nat
  companyId :: nat

record application =
  app_id :: nat
  jobOfferId :: nat
  userId :: nat
  coverLetter :: string
  resumeUrl :: string
  status :: string
  appliedAt :: nat
  updatedAt :: nat

record notification =
  notif_id :: nat
  notif_user_id :: nat
  title :: string
  message :: string
  notification_type :: string
  is_read :: bool
  created_at :: nat

text \<open>
  The state every operation reads and writes: the five tables, the two auto-increment
  counters the code observes through \<^verbatim>\<open>result.insertId\<close>, and the lines written with
  \<^verbatim>\<open>console.error\<close>.
\<close>

record state =
  users :: "user list"
  companies :: "company_row list"
  job_offers :: "job_offer list"
  applications :: "application list"
  notifications :: "notification list"
  next_application_id :: nat
  next_notification_id :: nat
  console :: "string list"

text \<open>
  What an operation gets from outside the state: the value of \<^verbatim>\<open>CURRENT_TIMESTAMP\<close>, and
  whether the store carries out the notification INSERT issued for the application with a
  given id (the one statement whose failure the code handles on its own, in
  \<^verbatim>\<open>createStatusNotification\<close>). Every other statement is executed by the store; it fails
  only on a violated UNIQUE or FOREIGN KEY constraint.
\<close>

record env =
  now :: nat
  notif_ok :: "nat \<Rightarrow> bool"

datatype db_error = DuplicateEntry | ForeignKeyViolation | WriteFailed

text \<open>
  The errors the model class throws, one constructor for each \<^verbatim>\<open>throw new Error(...)\<close>
  that the modelled paths reach:
  \<^item> \<open>AlreadyApplied\<close>: \<^verbatim>\<open>'You have already applied for this job'\<close>;
  \<^item> \<open>ErrorCreatingApplication e\<close>: \<^verbatim>\<open>'Error creating application: ' + error.message\<close>;
  \<^item> \<open>InvalidStatus\<close>: \<^verbatim>\<open>'Invalid status. Must be one of: ...'\<close>;
  \<^item> \<open>InvalidApplicationIds\<close>: \<^verbatim>\<open>'Invalid application IDs'\<close>.
\<close>

datatype error =
    AlreadyApplied
  | ErrorCreatingApplication db_error
  | InvalidStatus
  | InvalidApplicationIds

text \<open>
  An HTTP response: status code, the \<^verbatim>\<open>success\<close> flag, the \<^verbatim>\<open>message\<close> (a literal of the
  route, or the message of a caught error) and the \<^verbatim>\<open>data\<close> field.
\<close>

datatype msg = Str string | Thrown error

datatype response =
  Response (res_status: nat) (res_success: bool) (res_message: msg) (res_data: "application option")

section \<open>The store\<close>

definition findById :: "state \<Rightarrow> nat \<Rightarrow> application option" where
  "findById st i = find (\<lambda>a. app_id a = i) (applications st)"

definition findByJobAndUser :: "state \<Rightarrow> nat \<Rightarrow> nat \<Rightarrow> application option" where
  "findByJobAndUser st j u = find (\<lambda>a. jobOfferId a = j \<and> userId a = u) (applications st)"

text \<open>
  \<^verbatim>\<open>INSERT INTO applications (job_offer_id, user_id, cover_letter, resume_url)\<close>: the key
  \<^verbatim>\<open>unique_application (job_offer_id, user_id)\<close> and the two foreign keys are checked by the
  store; the row gets the next id, status \<^verbatim>\<open>'pending'\<close> and both timestamps from the clock.
\<close>

definition insert_application ::
  "env \<Rightarrow> state \<Rightarrow> nat \<Rightarrow> nat \<Rightarrow> string \<Rightarrow> string \<Rightarrow> db_error + (nat \<times> state)" where
  "insert_application e st j u cl ru =
     (if findByJobAndUser st j u \<noteq> None then Inl DuplicateEntry
      else if j \<in> set (map job_id (job_offers st)) \<and> u \<in> set (map user_id (users st)) then
        Inr (next_application_id st,
             st\<lparr>applications := applications st @
                   [\<lparr>app_id = next_application_id st, jobOfferId = j, userId = u,
                     coverLetter = cl, resumeUrl = ru, status = ''pending'',
                     appliedAt = now e, updatedAt = now e\<rparr>],
                next_application_id := Suc (next_application_id st)\<rparr>)
      else Inl ForeignKeyViolation)"

text \<open>
  \<^verbatim>\<open>UPDATE applications SET status = ?, updated_at = CURRENT_TIMESTAMP WHERE id IN (...)\<close>;
  the single-row statement of \<^verbatim>\<open>updateStatus\<close> is the case of a one-element list.
\<close>

definition update_status_rows :: "env \<Rightarrow> state \<Rightarrow> nat list \<Rightarrow> string \<Rightarrow> state" where
  "update_status_rows e st ids s =
     st\<lparr>applications :=
          map (\<lambda>a. if app_id a \<in> set ids then a\<lparr>status := s, updatedAt := now e\<rparr> else a)
              (applications st)\<rparr>"

text \<open>\<^verbatim>\<open>DELETE FROM applications WHERE id = ?\<close>\<close>

definition delete_row :: "state \<Rightarrow> nat \<Rightarrow> state" where
  "delete_row st i = st\<lparr>applications := filter (\<lambda>a. app_id a \<noteq> i) (applications st)\<rparr>"

text \<open>
  \<^verbatim>\<open>INSERT INTO notifications (user_id, title, message, notification_type)\<close> issued for the
  application \<open>i\<close>: refused when the store does not carry the write out or the recipient is
  no row of \<^verbatim>\<open>users\<close>.
\<close>

definition insert_notification ::
  "env \<Rightarrow> state \<Rightarrow> nat \<Rightarrow> nat \<Rightarrow> string \<Rightarrow> string \<Rightarrow> db_error + state" where
  "insert_notification e st i u t m =
     (if notif_ok e i then
        (if u \<in> set (map user_id (users st)) then
           Inr (st\<lparr>notifications := notifications st @
                     [\<lparr>notif_id = next_notification_id st, notif_user_id = u, title = t,
                       message = m, notification_type = ''application_status'',
                       is_read = False, created_at = now e\<rparr>],
                   next_notification_id := Suc (next_notification_id st)\<rparr>)
         else Inl ForeignKeyViolation)
      else Inl WriteFailed)"

section \<open>The Application model class\<close>

record application_data =
  d_jobOfferId :: nat
  d_userId :: nat
  d_coverLetter :: string
  d_resumeUrl :: string

text \<open>
  \<^verbatim>\<open>Application.create\<close> in its two steps: the existence check, and the INSERT in its
  \<^verbatim>\<open>try/catch\<close> followed by \<^verbatim>\<open>findById(result.insertId)\<close>.
\<close>

definition create_insert ::
  "env \<Rightarrow> state \<Rightarrow> application_data \<Rightarrow> error + (application option \<times> state)" where
  "create_insert e st d =
     (case insert_application e st (d_jobOfferId d) (d_userId d) (d_coverLetter d) (d_resumeUrl d) of
        Inl err \<Rightarrow> Inl (ErrorCreatingApplication err)
      | Inr (insertId, st') \<Rightarrow> Inr (findById st' insertId, st'))"

definition create ::
  "env \<Rightarrow> state \<Rightarrow> application_data \<Rightarrow> error + (application option \<times> state)" where
  "create e st d =
     (case findByJobAndUser st (d_jobOfferId d) (d_userId d) of
        Some existingApplication \<Rightarrow> Inl AlreadyApplied
      | None \<Rightarrow> create_insert e st d)"

definition canUserApply :: "state \<Rightarrow> nat \<Rightarrow> nat \<Rightarrow> bool" where
  "canUserApply st u j = (findByJobAndUser st j u = None)"

definition validStatuses :: "string list" where
  "validStatuses = [''pending'', ''reviewed'', ''interview'', ''accepted'', ''rejected'']"

definition statusMessages :: "(string \<times> string) list" where
  "statusMessages =
     [(''reviewed'', ''Your application has been reviewed''),
      (''interview'', ''You have been invited for an interview''),
      (''accepted'', ''Congratulations! Your application has been accepted''),
      (''rejected'', ''Your application has been rejected'')]"

text \<open>
  \<^verbatim>\<open>createStatusNotification(status, updatedBy)\<close>: no message for the status, no row; a
  failed INSERT is written to the console and the method returns normally. Both callers
  pass a status that went through \<^verbatim>\<open>validStatuses.includes\<close>.
\<close>

definition createStatusNotification ::
  "env \<Rightarrow> state \<Rightarrow> application \<Rightarrow> string \<Rightarrow> nat option \<Rightarrow> state" where
  "createStatusNotification e st this s updatedBy =
     (case map_of statusMessages s of
        None \<Rightarrow> st
      | Some m \<Rightarrow>
          (case insert_notification e st (app_id this) (userId this)
                  ''Application Status Update'' m of
             Inr st' \<Rightarrow> st'
           | Inl err \<Rightarrow> st\<lparr>console := console st @ [''Error creating notification:'']\<rparr>))"

text \<open>The truth value of an optional id in a condition: \<^verbatim>\<open>null\<close> and \<^verbatim>\<open>0\<close> are false.\<close>

fun truthy :: "nat option \<Rightarrow> bool" where
  "truthy None = False"
| "truthy (Some n) = (n \<noteq> 0)"

definition updateStatus ::
  "env \<Rightarrow> state \<Rightarrow> application \<Rightarrow> string \<Rightarrow> nat option \<Rightarrow> error + (application \<times> state)" where
  "updateStatus e st this newStatus updatedBy =
     (if newStatus \<in> set validStatuses then
        (let st1 = update_status_rows e st [app_id this] newStatus;
             this' = this\<lparr>status := newStatus\<rparr>;
             st2 = (if truthy updatedBy
                    then createStatusNotification e st1 this' newStatus updatedBy
                    else st1)
         in Inr (this', st2))
      else Inl InvalidStatus)"

text \<open>\<^verbatim>\<open>Application.prototype.delete\<close>: the row with \<^verbatim>\<open>this.id\<close> is removed for good.\<close>

definition delete_app :: "state \<Rightarrow> application \<Rightarrow> bool \<times> state" where
  "delete_app st this = (True, delete_row st (app_id this))"

text \<open>The loop of \<^verbatim>\<open>bulkUpdateStatus\<close> that notifies each application found again by id.\<close>

definition notify_each :: "env \<Rightarrow> string \<Rightarrow> nat option \<Rightarrow> nat list \<Rightarrow> state \<Rightarrow> state" where
  "notify_each e s updatedBy ids st =
     fold (\<lambda>appId acc. case findById acc appId of
                          Some app \<Rightarrow> createStatusNotification e acc app s updatedBy
                        | None \<Rightarrow> acc) ids st"

definition bulkUpdateStatus ::
  "env \<Rightarrow> state \<Rightarrow> nat list \<Rightarrow> string \<Rightarrow> nat option \<Rightarrow> error + (bool \<times> state)" where
  "bulkUpdateStatus e st applicationIds newStatus updatedBy =
     (if newStatus \<in> set validStatuses then
        (if applicationIds = [] then Inl InvalidApplicationIds
         else
           (let st1 = update_status_rows e st applicationIds newStatus;
                st2 = (if truthy updatedBy
                       then notify_each e newStatus updatedBy applicationIds st1
                       else st1)
            in Inr (True, st2)))
      else Inl InvalidStatus)"

section \<open>The routes of \<^verbatim>\<open>/api/applications\<close>\<close>

text \<open>
  \<^verbatim>\<open>requireRole(roles)\<close> on the \<^verbatim>\<open>req.user\<close> left by the authentication middleware: it
  answers 401 or 403 (\<open>Inl\<close>), or calls \<^verbatim>\<open>next()\<close> (\<open>Inr\<close>, with the user the handler
  then reads from the request).
\<close>

definition requireRole :: "user_type list \<Rightarrow> user option \<Rightarrow> response + user" where
  "requireRole roles req_user =
     (case req_user of
        None \<Rightarrow> Inl (Response 401 False (Str ''Authentication required'') None)
      | Some u \<Rightarrow>
          (if userType u \<in> set roles then Inr u
           else Inl (Response 403 False (Str ''Access denied. Insufficient permissions'') None)))"

text \<open>
  The body of \<^verbatim>\<open>POST /api/applications\<close>. \<open>b_userId\<close> is a \<^verbatim>\<open>userId\<close> the client may have
  put in the payload.
\<close>

record application_body =
  b_jobOfferId :: nat
  b_userId :: "nat option"
  b_coverLetter :: string
  b_resumeUrl :: string

text \<open>
  \<^verbatim>\<open>validateApplication\<close>: the job offer id is an integer by its type; the cover letter has
  10 to 2000 characters; both it and the resume URL are not empty, and the resume URL
  passes the validator library's URL test, a parameter here.
\<close>

definition validateApplication :: "(string \<Rightarrow> bool) \<Rightarrow> application_body \<Rightarrow> response option" where
  "validateApplication isURL b =
     (if 10 \<le> length (b_coverLetter b) \<and> length (b_coverLetter b) \<le> 2000
         \<and> b_resumeUrl b \<noteq> [] \<and> isURL (b_resumeUrl b)
      then None
      else Some (Response 400 False (Str ''Validation failed'') None))"

text \<open>
  \<^verbatim>\<open>POST /api/applications\<close>: \<^verbatim>\<open>requireRole(['job_seeker'])\<close>, the validation, then
  \<^verbatim>\<open>applicationData = {...req.body, userId: req.user.id}\<close> handed to \<^verbatim>\<open>Application.create\<close>.
  The spread copies the fields of the body, and the \<^verbatim>\<open>userId\<close> written after it replaces
  the one of the body, so the four fields \<^verbatim>\<open>create\<close> takes out of \<^verbatim>\<open>applicationData\<close> are
  the body's job offer id, cover letter and resume URL, and the id of \<^verbatim>\<open>req.user\<close>.
\<close>

definition post_application ::
  "(string \<Rightarrow> bool) \<Rightarrow> env \<Rightarrow> state \<Rightarrow> user option \<Rightarrow> application_body \<Rightarrow> response \<times> state" where
  "post_application isURL e st req_user b =
     (case requireRole [job_seeker] req_user of
        Inl r \<Rightarrow> (r, st)
      | Inr u \<Rightarrow>
          (case validateApplication isURL b of
             Some r \<Rightarrow> (r, st)
           | None \<Rightarrow>
               (case create e st \<lparr>d_jobOfferId = b_jobOfferId b, d_userId = user_id u,
                                  d_coverLetter = b_coverLetter b, d_resumeUrl = b_resumeUrl b\<rparr> of
                  Inl err \<Rightarrow> (Response 400 False (Thrown err) None, st)
                | Inr (app, st') \<Rightarrow>
                    (Response 201 True (Str ''Application submitted successfully'') app, st'))))"

text \<open>
  \<^verbatim>\<open>PUT /api/applications/:id/status\<close>. The \<^verbatim>\<open>status\<close> of the body may be absent; an
  absent or empty one is false in \<^verbatim>\<open>!status\<close>.
\<close>

definition put_status ::
  "env \<Rightarrow> state \<Rightarrow> user option \<Rightarrow> nat \<Rightarrow> string option \<Rightarrow> response \<times> state" where
  "put_status e st req_user i body_status =
     (case requireRole [company, admin] req_user of
        Inl r \<Rightarrow> (r, st)
      | Inr u \<Rightarrow>
          (case body_status of
             None \<Rightarrow> (Response 400 False (Str ''Status is required'') None, st)
           | Some s \<Rightarrow>
               (if s = [] then (Response 400 False (Str ''Status is required'') None, st)
                else
                  (case findById st i of
                     None \<Rightarrow> (Response 404 False (Str ''Application not found'') None, st)
                   | Some app \<Rightarrow>
                       (case updateStatus e st app s (Some (user_id u)) of
                          Inl err \<Rightarrow> (Response 400 False (Thrown err) None, st)
                        | Inr (updatedApplication, st') \<Rightarrow>
                            (Response 200 True (Str ''Application status updated successfully'')
                               (Some updatedApplication), st'))))))"

text \<open>\<^verbatim>\<open>PUT /api/applications/bulk/status\<close>\<close>

definition put_bulk_status ::
  "env \<Rightarrow> state \<Rightarrow> user option \<Rightarrow> nat list option \<Rightarrow> string option \<Rightarrow> response \<times> state" where
  "put_bulk_status e st req_user body_ids body_status =
     (case requireRole [company, admin] req_user of
        Inl r \<Rightarrow> (r, st)
      | Inr u \<Rightarrow>
          (case body_ids of
             None \<Rightarrow> (Response 400 False (Str ''Application IDs are required'') None, st)
           | Some ids \<Rightarrow>
               (if ids = [] then
                  (Response 400 False (Str ''Application IDs are required'') None, st)
                else
                  (case body_status of
                     None \<Rightarrow> (Response 400 False (Str ''Status is required'') None, st)
                   | Some s \<Rightarrow>
                       (if s = [] then
                          (Response 400 False (Str ''Status is required'') None, st)
                        else
                          (case bulkUpdateStatus e st ids s (Some (user_id u)) of
                             Inl err \<Rightarrow> (Response 400 False (Thrown err) None, st)
                           | Inr (ok, st') \<Rightarrow>
                               (Response 200 True (Str ''Applications updated successfully'') None,
                                st')))))))"

text \<open>\<^verbatim>\<open>DELETE /api/applications/:id\<close>\<close>

definition delete_application :: "state \<Rightarrow> user option \<Rightarrow> nat \<Rightarrow> response \<times> state" where
  "delete_application st req_user i =
     (case requireRole [job_seeker] req_user of
        Inl r \<Rightarrow> (r, st)
      | Inr u \<Rightarrow>
          (case findById st i of
             None \<Rightarrow> (Response 404 False (Str ''Application not found'') None, st)
           | Some app \<Rightarrow>
               (if userId app \<noteq> user_id u then
                  (Response 403 False (Str ''Access denied'') None, st)
                else
                  (Response 200 True (Str ''Application deleted successfully'') None,
                   snd (delete_app st app)))))"

section \<open>Ownership\<close>

text \<open>
  The owner of the company behind an application, along the foreign keys of the schema:
  \<^verbatim>\<open>applications.job_offer_id\<close>, \<^verbatim>\<open>job_offers.company_id\<close>, \<^verbatim>\<open>companies.user_id\<close>.
\<close>

definition application_owner :: "state \<Rightarrow> application \<Rightarrow> nat option" where
  "application_owner st app =
     (case find (\<lambda>j. job_id j = jobOfferId app) (job_offers st) of
        None \<Rightarrow> None
      | Some j \<Rightarrow>
          (case find (\<lambda>c. company_id c = companyId j) (companies st) of
             None \<Rightarrow> None
           | Some c \<Rightarrow> Some (company_user_id c)))"

text \<open>At most one application for each pair of job offer and applicant.\<close>

definition unique_application :: "state \<Rightarrow> bool" where
  "unique_application st = distinct (map (\<lambda>a. (jobOfferId a, userId a)) (applications st))"

text \<open>
  The row \<^verbatim>\<open>createStatusNotification\<close> writes for an application: recipient
  \<^verbatim>\<open>this.userId\<close>, the fixed title and type, the message of the status.
\<close>

definition status_notification :: "env \<Rightarrow> state \<Rightarrow> application \<Rightarrow> string \<Rightarrow> notification" where
  "status_notification e st app m =
     \<lparr>notif_id = next_notification_id st, notif_user_id = userId app,
      title = ''Application Status Update'', message = m,
      notification_type = ''application_status'', is_read = False, created_at = now e\<rparr>"

section \<open>Sequences of operations\<close>

text \<open>
  The operations that write the \<^verbatim>\<open>applications\<close> table, each leaving the state as it is when
  it throws. \<open>CreateInsert\<close> is the second step of \<^verbatim>\<open>Application.create\<close> on its own: the
  INSERT of a call whose existence check ran on an earlier state, as happens when two calls
  interleave at their \<^verbatim>\<open>await\<close>s.
\<close>

datatype operation =
    Create env application_data
  | CreateInsert env application_data
  | UpdateStatus env nat string "nat option"
  | BulkUpdateStatus env "nat list" string "nat option"
  | Delete nat

fun exec :: "operation \<Rightarrow> state \<Rightarrow> state" where
  "exec (Create e d) st = (case create e st d of Inl err \<Rightarrow> st | Inr (a, st') \<Rightarrow> st')"
| "exec (CreateInsert e d) st =
     (case create_insert e st d of Inl err \<Rightarrow> st | Inr (a, st') \<Rightarrow> st')"
| "exec (UpdateStatus e i s by) st =
     (case findById st i of
        None \<Rightarrow> st
      | Some app \<Rightarrow>
          (case updateStatus e st app s by of Inl err \<Rightarrow> st | Inr (a, st') \<Rightarrow> st'))"
| "exec (BulkUpdateStatus e ids s by) st =
     (case bulkUpdateStatus e st ids s by of Inl err \<Rightarrow> st | Inr (ok, st') \<Rightarrow> st')"
| "exec (Delete i) st =
     (case findById st i of None \<Rightarrow> st | Some app \<Rightarrow> snd (delete_app st app))"

section \<open>A small instance\<close>

text \<open>
  Two company users (1 and 2), each owning one company with one job offer; two job seekers
  (3 and 5) who applied to job offer 1; an administrator (4).
\<close>

definition example_env :: env where
  "example_env = \<lparr>now = 100, notif_ok = (\<lambda>i. True)\<rparr>"

definition failing_env :: env where
  "failing_env = \<lparr>now = 100, notif_ok = (\<lambda>i. False)\<rparr>"

definition pending_application :: application where
  "pending_application =
     \<lparr>app_id = 1, jobOfferId = 1, userId = 3, coverLetter = ''I would like to apply'',
      resumeUrl = ''http://cv.example/3'', status = ''pending'', appliedAt = 10, updatedAt = 10\<rparr>"

definition accepted_application :: application where
  "accepted_application =
     \<lparr>app_id = 2, jobOfferId = 1, userId = 5, coverLetter = ''Please consider me'',
      resumeUrl = ''http://cv.example/5'', status = ''accepted'', appliedAt = 20, updatedAt = 30\<rparr>"

definition example_state :: state where
  "example_state =
     \<lparr>users = [\<lparr>user_id = 1, userType = company\<rparr>, \<lparr>user_id = 2, userType = company\<rparr>,
               \<lparr>user_id = 3, userType = job_seeker\<rparr>, \<lparr>user_id = 4, userType = admin\<rparr>,
               \<lparr>user_id = 5, userType = job_seeker\<rparr>],
      companies = [\<lparr>company_id = 1, company_user_id = 1\<rparr>,
                   \<lparr>company_id = 2, company_user_id = 2\<rparr>],
      job_offers = [\<lparr>job_id = 1, companyId = 1\<rparr>, \<lparr>job_id = 2, companyId = 2\<rparr>],
      applications = [pending_application, accepted_application],
      notifications = [],
      next_application_id = 3,
      next_notification_id = 1,
      console = []\<rparr>"

text \<open>Job seeker 3 applying to job offer 2: the data, the body, and the row that results.\<close>

definition example_data :: application_data where
  "example_data = \<lparr>d_jobOfferId = 2, d_userId = 3, d_coverLetter = ''I would like to apply'',
                    d_resumeUrl = ''http://cv.example/3''\<rparr>"

definition example_body :: application_body where
  "example_body = \<lparr>b_jobOfferId = 2, b_userId = Some 5, b_coverLetter = ''I would like to apply'',
                    b_resumeUrl = ''http://cv.example/3''\<rparr>"

definition new_application :: application where
  "new_application =
     \<lparr>app_id = 3, jobOfferId = 2, userId = 3, coverLetter = ''I would like to apply'',
      resumeUrl = ''http://cv.example/3'', status = ''pending'', appliedAt = 100, updatedAt = 100\<rparr>"

definition example_isURL :: "string \<Rightarrow> bool" where
  "example_isURL s = (take 7 s = ''http://'')"

section \<open>Basic facts\<close>

lemma createStatusNotification_applications [simp]:
  "applications (createStatusNotification e st this s by) = applications st"
  by (auto simp: createStatusNotification_def insert_notification_def
      split: option.splits sum.splits if_splits)

lemma notify_each_applications [simp]:
  "applications (notify_each e s by ids st) = applications st"
  unfolding notify_each_def
  by (induction ids arbitrary: st) (simp_all split: option.splits)

lemma update_status_rows_applications:
  "applications (update_status_rows e st ids s) =
     map (\<lambda>a. if app_id a \<in> set ids then a\<lparr>status := s, updatedAt := now e\<rparr> else a)
         (applications st)"
  by (simp add: update_status_rows_def)

lemma valid_status_not_empty: "s \<in> set validStatuses \<Longrightarrow> s \<noteq> []"
  by (auto simp: validStatuses_def)

lemma find_snoc_not_None: "P x \<Longrightarrow> find P (xs @ [x]) \<noteq> None"
  by (induction xs) simp_all

section \<open>Who may change a status\<close>

text \<open>
  C1. The route \<^verbatim>\<open>PUT /api/applications/:id/status\<close> checks the role and nothing else.
  Application 1 is for job offer 1, which belongs to company 1, owned by user 1. User 2, a
  company user who owns company 2 only, sets it to rejected: the answer is 200, the row is
  changed and the applicant is notified.
\<close>

theorem status_update_by_other_company:
  "application_owner example_state pending_application = Some 1 \<and>
   put_status example_env example_state (Some \<lparr>user_id = 2, userType = company\<rparr>) 1
       (Some ''rejected'') =
     (Response 200 True (Str ''Application status updated successfully'')
        (Some (pending_application\<lparr>status := ''rejected''\<rparr>)),
      example_state
        \<lparr>applications :=
           [pending_application\<lparr>status := ''rejected'', updatedAt := 100\<rparr>, accepted_application],
         notifications :=
           [\<lparr>notif_id = 1, notif_user_id = 3, title = ''Application Status Update'',
             message = ''Your application has been rejected'',
             notification_type = ''application_status'', is_read = False, created_at = 100\<rparr>],
         next_notification_id := 2\<rparr>)"
  by (simp add: application_owner_def put_status_def requireRole_def updateStatus_def Let_def
      update_status_rows_def findById_def
      createStatusNotification_def insert_notification_def statusMessages_def validStatuses_def
      example_state_def example_env_def accepted_application_def pending_application_def)

text \<open>
  C6, as the code has it. An administrator passes the role check of the two status routes
  (single and bulk), and is answered 403, with the state untouched, by the routes that
  create and delete an application: those admit job seekers only.
\<close>

theorem admin_role_gate:
  assumes "userType u = admin"
  shows "post_application isURL e st (Some u) b =
           (Response 403 False (Str ''Access denied. Insufficient permissions'') None, st) \<and>
         delete_application st (Some u) i =
           (Response 403 False (Str ''Access denied. Insufficient permissions'') None, st) \<and>
         requireRole [company, admin] (Some u) = Inr u \<and>
         (findById st i = Some app \<and> s \<in> set validStatuses \<longrightarrow>
            res_status (fst (put_status e st (Some u) i (Some s))) = 200) \<and>
         (ids \<noteq> [] \<and> s \<in> set validStatuses \<longrightarrow>
            res_status (fst (put_bulk_status e st (Some u) (Some ids) (Some s))) = 200)"
proof -
  have gate: "requireRole [company, admin] (Some u) = Inr u"
    using assms by (simp add: requireRole_def)
  have deny: "requireRole [job_seeker] (Some u) =
      Inl (Response 403 False (Str ''Access denied. Insufficient permissions'') None)"
    using assms by (simp add: requireRole_def)
  have one: "findById st i = Some app \<and> s \<in> set validStatuses \<longrightarrow>
            res_status (fst (put_status e st (Some u) i (Some s))) = 200"
    using valid_status_not_empty[of s]
    by (auto simp: put_status_def gate updateStatus_def Let_def)
  have bulk: "ids \<noteq> [] \<and> s \<in> set validStatuses \<longrightarrow>
            res_status (fst (put_bulk_status e st (Some u) (Some ids) (Some s))) = 200"
    using valid_status_not_empty[of s]
    by (auto simp: put_bulk_status_def gate bulkUpdateStatus_def Let_def)
  show ?thesis
    using gate one bulk by (simp add: post_application_def delete_application_def deny)
qed

theorem admin_role_gate_witness:
  "userType \<lparr>user_id = 4, userType = admin\<rparr> = admin \<and>
   post_application example_isURL example_env example_state
       (Some \<lparr>user_id = 4, userType = admin\<rparr>) example_body =
     (Response 403 False (Str ''Access denied. Insufficient permissions'') None, example_state) \<and>
   delete_application example_state (Some \<lparr>user_id = 4, userType = admin\<rparr>) 1 =
     (Response 403 False (Str ''Access denied. Insufficient permissions'') None, example_state) \<and>
   res_status (fst (put_status example_env example_state (Some \<lparr>user_id = 4, userType = admin\<rparr>) 1
                      (Some ''reviewed''))) = 200 \<and>
   res_status (fst (put_bulk_status example_env example_state
                      (Some \<lparr>user_id = 4, userType = admin\<rparr>) (Some [1, 2]) (Some ''reviewed''))) = 200"
proof -
  have a: "userType \<lparr>user_id = 4, userType = admin\<rparr> = admin" by simp
  have f: "findById example_state 1 = Some pending_application"
    by (simp add: findById_def example_state_def pending_application_def)
  have v: "''reviewed'' \<in> set validStatuses" by (simp add: validStatuses_def)
  from admin_role_gate[OF a, of example_isURL example_env example_state example_body 1
      pending_application "''reviewed''" "[1, 2]"] f v
  show ?thesis by simp
qed

text \<open>
  C6 as stated fails: the administrator 4 is refused both the creation of an application
  and the deletion of application 1.
\<close>

theorem admin_denied_counterexample:
  "post_application example_isURL example_env example_state (Some \<lparr>user_id = 4, userType = admin\<rparr>)
      \<lparr>b_jobOfferId = 2, b_userId = None, b_coverLetter = ''I would like to apply'',
       b_resumeUrl = ''http://cv.example/4''\<rparr> =
     (Response 403 False (Str ''Access denied. Insufficient permissions'') None, example_state) \<and>
   findById example_state 1 = Some pending_application \<and>
   delete_application example_state (Some \<lparr>user_id = 4, userType = admin\<rparr>) 1 =
     (Response 403 False (Str ''Access denied. Insufficient permissions'') None, example_state)"
  by (simp add: post_application_def delete_application_def requireRole_def findById_def
      example_state_def pending_application_def)

section \<open>The status transition\<close>

text \<open>
  C9. A status outside the five listed ones is refused with the invalid-status error by
  \<^verbatim>\<open>updateStatus\<close> and by \<^verbatim>\<open>bulkUpdateStatus\<close> alike, and \<^verbatim>\<open>bulkUpdateStatus\<close> throws in
  exactly two cases: the list of ids is empty, or the status is not a listed one.
\<close>

theorem invalid_status_rejected:
  "(s \<notin> set validStatuses \<longrightarrow>
      updateStatus e st this s by = Inl InvalidStatus \<and>
      bulkUpdateStatus e st ids s by = Inl InvalidStatus) \<and>
   ((\<exists>err. bulkUpdateStatus e st ids s by = Inl err) \<longleftrightarrow> (ids = [] \<or> s \<notin> set validStatuses))"
  by (auto simp: updateStatus_def bulkUpdateStatus_def Let_def)

theorem invalid_status_rejected_witness:
  "''hired'' \<notin> set validStatuses \<and>
   updateStatus example_env example_state pending_application ''hired'' (Some 1) = Inl InvalidStatus \<and>
   bulkUpdateStatus example_env example_state [1, 2] ''hired'' (Some 1) = Inl InvalidStatus"
proof -
  have h: "''hired'' \<notin> set validStatuses" by (simp add: validStatuses_def)
  from h invalid_status_rejected
    [of "''hired''" example_env example_state pending_application "Some 1" "[1, 2]"]
  show ?thesis by blast
qed

text \<open>
  C2, as the code has it. \<^verbatim>\<open>updateStatus\<close> has no guard on the current status: for every
  application, whatever its status, and every one of the five statuses, the call succeeds,
  returns the application with the new status, and the stored row gets the new status
  and the current time as \<^verbatim>\<open>updated_at\<close>.
\<close>

theorem update_status_from_any_state:
  assumes "s \<in> set validStatuses"
  shows "\<exists>st'. updateStatus e st this s by = Inr (this\<lparr>status := s\<rparr>, st') \<and>
           applications st' =
             map (\<lambda>a. if app_id a = app_id this then a\<lparr>status := s, updatedAt := now e\<rparr> else a)
                 (applications st)"
  using assms by (simp add: updateStatus_def Let_def update_status_rows_applications)

theorem update_status_from_any_state_witness:
  "''reviewed'' \<in> set validStatuses \<and>
   (\<exists>st'. updateStatus example_env example_state accepted_application ''reviewed'' None =
            Inr (accepted_application\<lparr>status := ''reviewed''\<rparr>, st') \<and>
          applications st' =
            map (\<lambda>a. if app_id a = app_id accepted_application
                      then a\<lparr>status := ''reviewed'', updatedAt := now example_env\<rparr> else a)
                (applications example_state))"
proof -
  have h: "''reviewed'' \<in> set validStatuses" by (simp add: validStatuses_def)
  from h update_status_from_any_state
    [OF h, of example_env example_state accepted_application None]
  show ?thesis by blast
qed

text \<open>
  C2 as stated fails: an accepted application is moved back to pending, and its
  \<^verbatim>\<open>updated_at\<close> goes from 30 to 100.
\<close>

theorem terminal_state_counterexample:
  "status accepted_application = ''accepted'' \<and>
   updatedAt accepted_application = 30 \<and>
   updateStatus example_env example_state accepted_application ''pending'' (Some 1) =
     Inr (accepted_application\<lparr>status := ''pending''\<rparr>,
          example_state\<lparr>applications :=
            [pending_application, accepted_application\<lparr>status := ''pending'', updatedAt := 100\<rparr>]\<rparr>)"
  by (simp add: updateStatus_def Let_def update_status_rows_def createStatusNotification_def
      statusMessages_def validStatuses_def example_state_def example_env_def
      accepted_application_def pending_application_def)

section \<open>Notifications\<close>

text \<open>
  C5. A company user or administrator with a positive id (ids are auto-increment keys)
  sets an existing application to one of the five statuses through the status route, and
  the store accepts the notification row. Then the route answers 200, and for reviewed,
  interview, accepted and rejected exactly one row is appended to \<^verbatim>\<open>notifications\<close>,
  addressed to the application's \<^verbatim>\<open>userId\<close> and carrying the message of that status; for
  pending the table is left as it was.
\<close>

theorem one_notification_per_transition:
  assumes actor: "req_user = Some u" "userType u \<in> {company, admin}" "0 < user_id u"
    and found: "findById st i = Some app"
    and valid: "s \<in> set validStatuses"
    and store: "notif_ok e (app_id app)" "userId app \<in> set (map user_id (users st))"
  shows "res_status (fst (put_status e st req_user i (Some s))) = 200 \<and>
         notifications (snd (put_status e st req_user i (Some s))) =
           (if s = ''reviewed'' then
              notifications st @ [status_notification e st app ''Your application has been reviewed'']
            else if s = ''interview'' then
              notifications st @ [status_notification e st app ''You have been invited for an interview'']
            else if s = ''accepted'' then
              notifications st @
                [status_notification e st app ''Congratulations! Your application has been accepted'']
            else if s = ''rejected'' then
              notifications st @ [status_notification e st app ''Your application has been rejected'']
            else notifications st)"
proof -
  have ne: "s \<noteq> []" using valid by (rule valid_status_not_empty)
  have upd: "updateStatus e st app s (Some (user_id u)) =
      Inr (app\<lparr>status := s\<rparr>,
           createStatusNotification e (update_status_rows e st [app_id app] s)
             (app\<lparr>status := s\<rparr>) s (Some (user_id u)))"
    using valid actor(3) by (simp add: updateStatus_def Let_def)
  have five: "s = ''pending'' \<or> s = ''reviewed'' \<or> s = ''interview'' \<or> s = ''accepted''
              \<or> s = ''rejected''"
    using valid by (simp add: validStatuses_def)
  have nts: "notifications (createStatusNotification e (update_status_rows e st [app_id app] s)
             (app\<lparr>status := s\<rparr>) s (Some (user_id u))) =
           (case map_of statusMessages s of None \<Rightarrow> notifications st
            | Some m \<Rightarrow> notifications st @ [status_notification e st app m])"
    using store
    by (simp add: createStatusNotification_def insert_notification_def update_status_rows_def
        status_notification_def split: option.splits)
  have res: "put_status e st req_user i (Some s) =
      (Response 200 True (Str ''Application status updated successfully'') (Some (app\<lparr>status := s\<rparr>)),
       createStatusNotification e (update_status_rows e st [app_id app] s)
             (app\<lparr>status := s\<rparr>) s (Some (user_id u)))"
    using actor(1,2) found ne upd by (auto simp: put_status_def requireRole_def)
  show ?thesis
    unfolding res fst_conv snd_conv nts
    using five by (auto simp: statusMessages_def)
qed

theorem one_notification_per_transition_witness:
  "userType \<lparr>user_id = 1, userType = company\<rparr> \<in> {company, admin} \<and>
   findById example_state 1 = Some pending_application \<and>
   ''interview'' \<in> set validStatuses \<and>
   notif_ok example_env (app_id pending_application) \<and>
   userId pending_application \<in> set (map user_id (users example_state)) \<and>
   res_status (fst (put_status example_env example_state (Some \<lparr>user_id = 1, userType = company\<rparr>) 1
                     (Some ''interview''))) = 200 \<and>
   notifications (snd (put_status example_env example_state
                        (Some \<lparr>user_id = 1, userType = company\<rparr>) 1 (Some ''interview''))) =
     [\<lparr>notif_id = 1, notif_user_id = 3, title = ''Application Status Update'',
       message = ''You have been invited for an interview'',
       notification_type = ''application_status'', is_read = False, created_at = 100\<rparr>]"
proof -
  have a: "userType \<lparr>user_id = 1, userType = company\<rparr> \<in> {company, admin}" by simp
  have p: "0 < user_id \<lparr>user_id = 1, userType = company\<rparr>" by simp
  have f: "findById example_state 1 = Some pending_application"
    by (simp add: findById_def example_state_def pending_application_def)
  have v: "''interview'' \<in> set validStatuses" by (simp add: validStatuses_def)
  have k: "notif_ok example_env (app_id pending_application)" by (simp add: example_env_def)
  have r: "userId pending_application \<in> set (map user_id (users example_state))"
    by (simp add: example_state_def pending_application_def)
  from one_notification_per_transition[OF refl a p f v k r]
  show ?thesis
    using a f v k r
    by (simp add: status_notification_def example_state_def example_env_def
        pending_application_def)
qed

text \<open>
  What \<^verbatim>\<open>updateStatus\<close> returns when the notification INSERT is refused, for either cause.
\<close>

lemma updateStatus_failed_insert:
  assumes "s \<in> set validStatuses"
    and "\<not> notif_ok e (app_id this) \<or> userId this \<notin> set (map user_id (users st))"
  shows "updateStatus e st this s by =
           Inr (this\<lparr>status := s\<rparr>,
                if truthy by \<and> map_of statusMessages s \<noteq> None
                then (update_status_rows e st [app_id this] s)
                       \<lparr>console := console st @ [''Error creating notification:'']\<rparr>
                else update_status_rows e st [app_id this] s)"
  using assms
  by (auto simp: updateStatus_def Let_def createStatusNotification_def insert_notification_def
      update_status_rows_def split: option.splits)

text \<open>
  C7. When the store refuses the notification INSERT, \<^verbatim>\<open>updateStatus\<close> still returns the
  application with its new status; the state it leaves is the one after the UPDATE, with
  one more console line when an INSERT was attempted, and no notification row. The status
  route answers 200 with the updated application.
\<close>

theorem notification_failure_swallowed:
  assumes valid: "s \<in> set validStatuses"
    and fails: "\<not> notif_ok e (app_id this) \<or> userId this \<notin> set (map user_id (users st))"
  shows "updateStatus e st this s by =
           Inr (this\<lparr>status := s\<rparr>,
                if truthy by \<and> map_of statusMessages s \<noteq> None
                then (update_status_rows e st [app_id this] s)
                       \<lparr>console := console st @ [''Error creating notification:'']\<rparr>
                else update_status_rows e st [app_id this] s) \<and>
         (req_user = Some u \<and> userType u \<in> {company, admin} \<and>
          findById st (app_id this) = Some this
          \<longrightarrow> fst (put_status e st req_user (app_id this) (Some s)) =
                Response 200 True (Str ''Application status updated successfully'')
                  (Some (this\<lparr>status := s\<rparr>)))"
  using valid_status_not_empty[OF valid] updateStatus_failed_insert[OF valid fails]
  by (auto simp: put_status_def requireRole_def)

theorem notification_failure_swallowed_witness:
  "''interview'' \<in> set validStatuses \<and>
   \<not> notif_ok failing_env (app_id pending_application) \<and>
   updateStatus failing_env example_state pending_application ''interview'' (Some 1) =
     Inr (pending_application\<lparr>status := ''interview''\<rparr>,
          example_state
            \<lparr>applications :=
               [pending_application\<lparr>status := ''interview'', updatedAt := 100\<rparr>,
                accepted_application],
             console := [''Error creating notification:'']\<rparr>) \<and>
   fst (put_status failing_env example_state (Some \<lparr>user_id = 1, userType = company\<rparr>) 1
          (Some ''interview'')) =
     Response 200 True (Str ''Application status updated successfully'')
       (Some (pending_application\<lparr>status := ''interview''\<rparr>))"
proof -
  have v: "''interview'' \<in> set validStatuses" by (simp add: validStatuses_def)
  have f: "\<not> notif_ok failing_env (app_id pending_application)
           \<or> userId pending_application \<notin> set (map user_id (users example_state))"
    by (simp add: failing_env_def)
  have g: "findById example_state (app_id pending_application) = Some pending_application"
    by (simp add: findById_def example_state_def pending_application_def)
  have i: "app_id pending_application = 1" by (simp add: pending_application_def)
  from notification_failure_swallowed
    [OF v f, of "Some 1" "Some \<lparr>user_id = 1, userType = company\<rparr>"
       "\<lparr>user_id = 1, userType = company\<rparr>"] g i
  show ?thesis
    by (simp add: v failing_env_def statusMessages_def update_status_rows_def example_state_def
        pending_application_def accepted_application_def)
qed

section \<open>The bulk update\<close>

lemma map_status_twice:
  "map status (map (\<lambda>a. if app_id a \<in> A then a\<lparr>status := s, updatedAt := t'\<rparr> else a)
     (map (\<lambda>a. if app_id a \<in> A then a\<lparr>status := s, updatedAt := t\<rparr> else a) xs)) =
   map status (map (\<lambda>a. if app_id a \<in> A then a\<lparr>status := s, updatedAt := t\<rparr> else a) xs)"
  by (induction xs) auto

lemma bulkUpdateStatus_applications:
  assumes "ids \<noteq> []" "s \<in> set validStatuses"
  shows "\<exists>st'. bulkUpdateStatus e st ids s by = Inr (True, st') \<and>
           applications st' =
             map (\<lambda>a. if app_id a \<in> set ids then a\<lparr>status := s, updatedAt := now e\<rparr> else a)
                 (applications st)"
  using assms by (simp add: bulkUpdateStatus_def Let_def update_status_rows_applications)

text \<open>
  C3, as the code has it. For a non-empty list of ids and one of the five statuses,
  \<^verbatim>\<open>bulkUpdateStatus\<close> returns \<^verbatim>\<open>true\<close> and nothing else; one UPDATE gives every stored
  application whose id is listed the new status and the current time, whatever its status
  was, and leaves the other rows alone (a listed id with no row changes nothing). Running
  the same call again on the result, at any later time, returns \<^verbatim>\<open>true\<close> again and leaves
  every status as the first run set it.
\<close>

theorem bulk_update_sets_every_listed_row:
  assumes ids: "ids \<noteq> []" and valid: "s \<in> set validStatuses"
  shows "\<exists>st'. bulkUpdateStatus e st ids s by = Inr (True, st') \<and>
           applications st' =
             map (\<lambda>a. if app_id a \<in> set ids then a\<lparr>status := s, updatedAt := now e\<rparr> else a)
                 (applications st) \<and>
           (\<exists>st''. bulkUpdateStatus e' st' ids s by = Inr (True, st'') \<and>
                   map status (applications st'') = map status (applications st'))"
proof -
  obtain st' where 1: "bulkUpdateStatus e st ids s by = Inr (True, st')"
    and 2: "applications st' =
             map (\<lambda>a. if app_id a \<in> set ids then a\<lparr>status := s, updatedAt := now e\<rparr> else a)
                 (applications st)"
    using bulkUpdateStatus_applications[OF ids valid] by blast
  obtain st'' where 3: "bulkUpdateStatus e' st' ids s by = Inr (True, st'')"
    and 4: "applications st'' =
             map (\<lambda>a. if app_id a \<in> set ids then a\<lparr>status := s, updatedAt := now e'\<rparr> else a)
                 (applications st')"
    using bulkUpdateStatus_applications[OF ids valid] by blast
  have "map status (applications st'') = map status (applications st')"
    unfolding 4 2 by (rule map_status_twice)
  with 1 2 3 show ?thesis by blast
qed

theorem bulk_update_sets_every_listed_row_witness:
  "[1, 2, 7] \<noteq> ([] :: nat list) \<and> ''rejected'' \<in> set validStatuses \<and>
   (\<exists>st'. bulkUpdateStatus example_env example_state [1, 2, 7] ''rejected'' (Some 1) = Inr (True, st') \<and>
          applications st' =
             map (\<lambda>a. if app_id a \<in> set [1, 2, 7]
                       then a\<lparr>status := ''rejected'', updatedAt := now example_env\<rparr> else a)
                 (applications example_state) \<and>
          (\<exists>st''. bulkUpdateStatus failing_env st' [1, 2, 7] ''rejected'' (Some 1) = Inr (True, st'') \<and>
                  map status (applications st'') = map status (applications st')))"
proof -
  have i: "[1, 2, 7] \<noteq> ([] :: nat list)" by simp
  have v: "''rejected'' \<in> set validStatuses" by (simp add: validStatuses_def)
  from i v bulk_update_sets_every_listed_row
    [OF i v, of example_env example_state "Some 1" failing_env]
  show ?thesis by - (intro conjI; assumption)
qed

text \<open>
  C3 as stated fails. The bulk call over applications 1 (pending), 2 (accepted) and the
  unknown id 7 returns \<^verbatim>\<open>true\<close>, with no succeeded and failed parts; the accepted application
  is set to rejected and its applicant is notified, and nothing records that 7 was not found.
\<close>

theorem bulk_update_counterexample:
  "status accepted_application = ''accepted'' \<and>
   findById example_state 7 = None \<and>
   bulkUpdateStatus example_env example_state [1, 2, 7] ''rejected'' (Some 1) =
     Inr (True,
          example_state
            \<lparr>applications :=
               [pending_application\<lparr>status := ''rejected'', updatedAt := 100\<rparr>,
                accepted_application\<lparr>status := ''rejected'', updatedAt := 100\<rparr>],
             notifications :=
               [\<lparr>notif_id = 1, notif_user_id = 3, title = ''Application Status Update'',
                 message = ''Your application has been rejected'',
                 notification_type = ''application_status'', is_read = False, created_at = 100\<rparr>,
                \<lparr>notif_id = 2, notif_user_id = 5, title = ''Application Status Update'',
                 message = ''Your application has been rejected'',
                 notification_type = ''application_status'', is_read = False, created_at = 100\<rparr>],
             next_notification_id := 3\<rparr>)"
  by (simp add: bulkUpdateStatus_def Let_def update_status_rows_def notify_each_def findById_def
      createStatusNotification_def insert_notification_def statusMessages_def validStatuses_def
      example_state_def example_env_def accepted_application_def pending_application_def)

section \<open>One application for each job offer and applicant\<close>

lemma findByJobAndUser_None_iff:
  "findByJobAndUser st j u = None \<longleftrightarrow>
     (j, u) \<notin> set (map (\<lambda>a. (jobOfferId a, userId a)) (applications st))"
  by (auto simp: findByJobAndUser_def find_None_iff)

lemma insert_application_unique:
  assumes "unique_application st" "insert_application e st j u cl ru = Inr (i, st')"
  shows "unique_application st'"
  using assms
  by (auto simp: insert_application_def unique_application_def findByJobAndUser_None_iff
      split: if_splits)

lemma insert_application_appends:
  assumes "insert_application e st j u cl ru = Inr (i, st')"
  shows "\<exists>row. applications st' = applications st @ [row] \<and> app_id row = i \<and>
           jobOfferId row = j \<and> userId row = u \<and> status row = ''pending''"
  using assms by (auto simp: insert_application_def split: if_splits)

lemma create_insert_unique:
  assumes "unique_application st" "create_insert e st d = Inr (a, st')"
  shows "unique_application st'"
  using assms insert_application_unique
  by (auto simp: create_insert_def split: sum.splits prod.splits)

lemma create_unique:
  assumes "unique_application st" "create e st d = Inr (a, st')"
  shows "unique_application st'"
  using assms create_insert_unique
  by (auto simp: create_def split: option.splits)

lemma create_insert_duplicate:
  assumes "findByJobAndUser st (d_jobOfferId d) (d_userId d) \<noteq> None"
  shows "create_insert e st d = Inl (ErrorCreatingApplication DuplicateEntry)"
  using assms by (simp add: create_insert_def insert_application_def)

lemma create_duplicate:
  assumes "findByJobAndUser st (d_jobOfferId d) (d_userId d) \<noteq> None"
  shows "create e st d = Inl AlreadyApplied"
  using assms by (auto simp: create_def split: option.splits)

lemma keys_update_status_rows:
  "map (\<lambda>a. (jobOfferId a, userId a)) (applications (update_status_rows e st ids s)) =
   map (\<lambda>a. (jobOfferId a, userId a)) (applications st)"
  by (simp add: update_status_rows_def o_def if_distrib cong: if_cong)

lemma updateStatus_unique:
  assumes "unique_application st" "updateStatus e st this s by = Inr (a, st')"
  shows "unique_application st'"
proof -
  have "applications st' = applications (update_status_rows e st [app_id this] s)"
    using assms(2) by (auto simp: updateStatus_def Let_def split: if_splits)
  then show ?thesis
    using assms(1) keys_update_status_rows[of e st "[app_id this]" s]
    by (simp add: unique_application_def)
qed

lemma bulkUpdateStatus_unique:
  assumes "unique_application st" "bulkUpdateStatus e st ids s by = Inr (ok, st')"
  shows "unique_application st'"
proof -
  have "applications st' = applications (update_status_rows e st ids s)"
    using assms(2) by (auto simp: bulkUpdateStatus_def Let_def split: if_splits)
  then show ?thesis
    using assms(1) keys_update_status_rows[of e st ids s]
    by (simp add: unique_application_def)
qed

lemma delete_app_unique:
  assumes "unique_application st"
  shows "unique_application (snd (delete_app st this))"
  using assms
  by (simp add: delete_app_def delete_row_def unique_application_def distinct_map_filter)

lemma exec_unique: "unique_application st \<Longrightarrow> unique_application (exec op st)"
proof (cases op)
  case (Create e d)
  assume "unique_application st"
  then show ?thesis using Create create_unique[of st e d]
    by (auto split: sum.splits)
next
  case (CreateInsert e d)
  assume "unique_application st"
  then show ?thesis using CreateInsert create_insert_unique[of st e d]
    by (auto split: sum.splits)
next
  case (UpdateStatus e i s b)
  assume "unique_application st"
  then show ?thesis using UpdateStatus updateStatus_unique[of st e _ s b]
    by (auto split: sum.splits option.splits)
next
  case (BulkUpdateStatus e ids s b)
  assume "unique_application st"
  then show ?thesis using BulkUpdateStatus bulkUpdateStatus_unique[of st e ids s b]
    by (auto split: sum.splits)
next
  case (Delete i)
  assume "unique_application st"
  then show ?thesis using Delete delete_app_unique[of st]
    by (auto split: option.splits)
qed

lemma fold_exec_unique:
  "unique_application st \<Longrightarrow> unique_application (fold exec ops st)"
  by (induction ops arbitrary: st) (simp_all add: exec_unique)

text \<open>
  C4, as the code has it. No sequence of creations, bare INSERT steps, status updates, bulk
  updates and deletions takes a table with at most one application for each pair of job
  offer and applicant to one with two. When the pair has an application,
  \<^verbatim>\<open>Application.create\<close> throws the already-applied error and the route answers 400 with the
  state untouched. When the pair's row is there only at the time of the INSERT, the INSERT
  is refused by the unique key and the \<^verbatim>\<open>catch\<close> rethrows it as the general
  error-creating-application error, not as the already-applied one.
\<close>

theorem one_application_per_pair:
  "(unique_application st \<longrightarrow> unique_application (fold exec ops st)) \<and>
   (findByJobAndUser st (d_jobOfferId d) (d_userId d) \<noteq> None \<longrightarrow>
      create e st d = Inl AlreadyApplied \<and>
      create_insert e st d = Inl (ErrorCreatingApplication DuplicateEntry)) \<and>
   (findByJobAndUser st (b_jobOfferId b) (user_id u) \<noteq> None \<and> userType u = job_seeker \<and>
    validateApplication isURL b = None \<longrightarrow>
      post_application isURL e st (Some u) b = (Response 400 False (Thrown AlreadyApplied) None, st))"
proof -
  have route: "findByJobAndUser st (b_jobOfferId b) (user_id u) \<noteq> None \<and> userType u = job_seeker \<and>
    validateApplication isURL b = None \<longrightarrow>
      post_application isURL e st (Some u) b = (Response 400 False (Thrown AlreadyApplied) None, st)"
    by (auto simp: post_application_def requireRole_def create_duplicate)
  show ?thesis
    using fold_exec_unique[of st ops]
      create_duplicate[of st d e] create_insert_duplicate[of st d e] route
    by blast
qed

theorem one_application_per_pair_witness:
  "unique_application example_state \<and>
   unique_application
     (fold exec [Create example_env example_data, CreateInsert example_env example_data,
                 Delete 1, Create failing_env example_data] example_state) \<and>
   findByJobAndUser example_state 1 3 \<noteq> None \<and>
   create example_env example_state (example_data\<lparr>d_jobOfferId := 1\<rparr>) = Inl AlreadyApplied \<and>
   create_insert example_env example_state (example_data\<lparr>d_jobOfferId := 1\<rparr>) =
     Inl (ErrorCreatingApplication DuplicateEntry)"
proof -
  have u: "unique_application example_state"
    by (simp add: unique_application_def example_state_def pending_application_def
        accepted_application_def)
  have f: "findByJobAndUser example_state 1 3 \<noteq> None"
    by (simp add: findByJobAndUser_def example_state_def pending_application_def)
  have f': "findByJobAndUser example_state (d_jobOfferId (example_data\<lparr>d_jobOfferId := 1\<rparr>))
              (d_userId (example_data\<lparr>d_jobOfferId := 1\<rparr>)) \<noteq> None"
    using f by (simp add: example_data_def)
  from one_application_per_pair
    [where st = example_state and e = example_env and d = "example_data\<lparr>d_jobOfferId := 1\<rparr>"
       and ops = "[Create example_env example_data, CreateInsert example_env example_data,
                   Delete 1, Create failing_env example_data]"] u f'
  have 1: "unique_application
     (fold exec [Create example_env example_data, CreateInsert example_env example_data,
                 Delete 1, Create failing_env example_data] example_state)"
    and 2: "create example_env example_state (example_data\<lparr>d_jobOfferId := 1\<rparr>) = Inl AlreadyApplied"
    and 3: "create_insert example_env example_state (example_data\<lparr>d_jobOfferId := 1\<rparr>) =
     Inl (ErrorCreatingApplication DuplicateEntry)"
    by blast+
  from u 1 f 2 3 show ?thesis by - (intro conjI; assumption)
qed

text \<open>
  C4 as stated fails in its last part. Two calls for job offer 2 by applicant 3 both run
  their existence check on the same state, where it finds nothing. The INSERT of the first
  succeeds; the INSERT of the second is refused, and what its \<^verbatim>\<open>catch\<close> throws is the
  error-creating-application error.
\<close>

theorem insert_conflict_counterexample:
  "findByJobAndUser example_state (d_jobOfferId example_data) (d_userId example_data) = None \<and>
   create_insert example_env example_state example_data =
     Inr (Some new_application,
          example_state\<lparr>applications := [pending_application, accepted_application, new_application],
                        next_application_id := 4\<rparr>) \<and>
   create_insert example_env
     (example_state\<lparr>applications := [pending_application, accepted_application, new_application],
                    next_application_id := 4\<rparr>) example_data =
     Inl (ErrorCreatingApplication DuplicateEntry) \<and>
   ErrorCreatingApplication DuplicateEntry \<noteq> AlreadyApplied"
  by (simp add: create_insert_def insert_application_def findByJobAndUser_def
        findById_def example_state_def example_env_def example_data_def new_application_def
        pending_application_def accepted_application_def)

section \<open>Applying again after a deletion\<close>

lemma find_after_delete:
  assumes "distinct (map (\<lambda>a. (jobOfferId a, userId a)) xs)"
    and "find (\<lambda>a. jobOfferId a = j \<and> userId a = u) xs = Some a"
  shows "find (\<lambda>a. jobOfferId a = j \<and> userId a = u) (filter (\<lambda>x. app_id x \<noteq> app_id a) xs) = None"
proof -
  have a: "a \<in> set xs" "jobOfferId a = j" "userId a = u"
    using assms(2) by (auto simp: find_Some_iff)
  have "\<And>x. x \<in> set xs \<Longrightarrow> jobOfferId x = j \<and> userId x = u \<Longrightarrow> x = a"
    using assms(1) a by (auto simp: distinct_map inj_on_def)
  then show ?thesis by (auto simp: find_None_iff)
qed

lemma findByJobAndUser_after_delete:
  assumes "unique_application st" "findByJobAndUser st j u = Some a"
  shows "findByJobAndUser (snd (delete_app st a)) j u = None"
  using assms find_after_delete
  by (simp add: unique_application_def findByJobAndUser_def delete_app_def delete_row_def)

lemma create_succeeds:
  assumes "findByJobAndUser st (d_jobOfferId d) (d_userId d) = None"
    and "d_jobOfferId d \<in> set (map job_id (job_offers st))"
    and "d_userId d \<in> set (map user_id (users st))"
  shows "\<exists>app st'. create e st d = Inr (Some app, st') \<and>
           findByJobAndUser st' (d_jobOfferId d) (d_userId d) \<noteq> None"
proof -
  let ?row = "\<lparr>app_id = next_application_id st, jobOfferId = d_jobOfferId d, userId = d_userId d,
               coverLetter = d_coverLetter d, resumeUrl = d_resumeUrl d, status = ''pending'',
               appliedAt = now e, updatedAt = now e\<rparr>"
  let ?st = "st\<lparr>applications := applications st @ [?row],
               next_application_id := Suc (next_application_id st)\<rparr>"
  have ins: "insert_application e st (d_jobOfferId d) (d_userId d) (d_coverLetter d) (d_resumeUrl d)
      = Inr (next_application_id st, ?st)"
    using assms by (simp add: insert_application_def)
  have "findById ?st (next_application_id st) \<noteq> None"
    by (simp add: findById_def find_snoc_not_None)
  then obtain app where app: "findById ?st (next_application_id st) = Some app" by blast
  have "findByJobAndUser ?st (d_jobOfferId d) (d_userId d) \<noteq> None"
    by (simp add: findByJobAndUser_def find_snoc_not_None)
  then show ?thesis
    using assms(1) ins app by (simp add: create_def create_insert_def)
qed

text \<open>
  C8, as the code has it. In a table with at most one application for each pair, where
  the applicant and the job offer are rows of their tables: while the applicant's
  application for the job offer is there, \<^verbatim>\<open>Application.create\<close> for the pair throws the
  already-applied error; once \<^verbatim>\<open>delete\<close> has removed that application, a later
  \<^verbatim>\<open>Application.create\<close> for the same pair succeeds, and the table still has at most one
  application for each pair.
\<close>

theorem reapply_after_delete:
  assumes uniq: "unique_application st"
    and found: "findByJobAndUser st (d_jobOfferId d) (d_userId d) = Some a"
    and job: "d_jobOfferId d \<in> set (map job_id (job_offers st))"
    and usr: "d_userId d \<in> set (map user_id (users st))"
  shows "create e st d = Inl AlreadyApplied \<and>
         unique_application (snd (delete_app st a)) \<and>
         (\<exists>app st'. create e' (snd (delete_app st a)) d = Inr (Some app, st') \<and>
                    unique_application st')"
proof -
  have 1: "create e st d = Inl AlreadyApplied"
    using found by (simp add: create_duplicate)
  have 2: "unique_application (snd (delete_app st a))"
    using uniq by (rule delete_app_unique)
  have none: "findByJobAndUser (snd (delete_app st a)) (d_jobOfferId d) (d_userId d) = None"
    using uniq found by (rule findByJobAndUser_after_delete)
  have tables: "job_offers (snd (delete_app st a)) = job_offers st"
    "users (snd (delete_app st a)) = users st"
    by (simp_all add: delete_app_def delete_row_def)
  obtain app st' where 3: "create e' (snd (delete_app st a)) d = Inr (Some app, st')"
    using create_succeeds[OF none, of e'] job usr tables by auto
  have "unique_application st'" using 2 3 by (rule create_unique)
  with 1 2 3 show ?thesis by blast
qed

theorem reapply_after_delete_witness:
  "unique_application example_state \<and>
   findByJobAndUser example_state 1 3 = Some pending_application \<and>
   create example_env example_state (example_data\<lparr>d_jobOfferId := 1\<rparr>) = Inl AlreadyApplied \<and>
   (\<exists>app st'. create example_env (snd (delete_app example_state pending_application))
                 (example_data\<lparr>d_jobOfferId := 1\<rparr>) = Inr (Some app, st') \<and>
              unique_application st')"
proof -
  have u: "unique_application example_state"
    by (simp add: unique_application_def example_state_def pending_application_def
        accepted_application_def)
  have f: "findByJobAndUser example_state 1 3 = Some pending_application"
    by (simp add: findByJobAndUser_def example_state_def pending_application_def)
  have f': "findByJobAndUser example_state (d_jobOfferId (example_data\<lparr>d_jobOfferId := 1\<rparr>))
              (d_userId (example_data\<lparr>d_jobOfferId := 1\<rparr>)) = Some pending_application"
    using f by (simp add: example_data_def)
  have j: "d_jobOfferId (example_data\<lparr>d_jobOfferId := 1\<rparr>)
             \<in> set (map job_id (job_offers example_state))"
    by (simp add: example_state_def)
  have k: "d_userId (example_data\<lparr>d_jobOfferId := 1\<rparr>) \<in> set (map user_id (users example_state))"
    by (simp add: example_state_def example_data_def)
  from reapply_after_delete[OF u f' j k, of example_env example_env]
  have "create example_env example_state (example_data\<lparr>d_jobOfferId := 1\<rparr>) = Inl AlreadyApplied"
    and "\<exists>app st'. create example_env (snd (delete_app example_state pending_application))
                 (example_data\<lparr>d_jobOfferId := 1\<rparr>) = Inr (Some app, st') \<and>
              unique_application st'"
    by blast+
  with u f show ?thesis by - (intro conjI; assumption)
qed

text \<open>
  C8 as stated fails: job seeker 3 applies to job offer 2 and gets application 3, deletes
  it, applies again, and gets application 4.
\<close>

theorem reapply_after_delete_counterexample:
  "create example_env example_state example_data =
     Inr (Some new_application,
          example_state\<lparr>applications := [pending_application, accepted_application, new_application],
                        next_application_id := 4\<rparr>) \<and>
   delete_app
     (example_state\<lparr>applications := [pending_application, accepted_application, new_application],
                    next_application_id := 4\<rparr>) new_application =
     (True, example_state\<lparr>applications := [pending_application, accepted_application],
                          next_application_id := 4\<rparr>) \<and>
   create example_env
     (example_state\<lparr>applications := [pending_application, accepted_application],
                    next_application_id := 4\<rparr>) example_data =
     Inr (Some (new_application\<lparr>app_id := 4\<rparr>),
          example_state\<lparr>applications := [pending_application, accepted_application,
                                           new_application\<lparr>app_id := 4\<rparr>],
                        next_application_id := 5\<rparr>)"
  by (simp add: create_def create_insert_def insert_application_def findByJobAndUser_def
        findById_def delete_app_def delete_row_def
        example_state_def example_env_def example_data_def new_application_def
        pending_application_def accepted_application_def)

section \<open>The applicant of a new application\<close>

text \<open>
  C10. The answer and the state left by \<^verbatim>\<open>POST /api/applications\<close> are the same whatever
  \<^verbatim>\<open>userId\<close> the payload carries, or if it carries none; and when the route answers 201 it
  has appended one row, whose applicant is the authenticated user and whose job offer is
  the payload's.
\<close>

theorem payload_user_id_ignored:
  "post_application isURL e st req_user (b\<lparr>b_userId := x\<rparr>) =
     post_application isURL e st req_user (b\<lparr>b_userId := y\<rparr>) \<and>
   (req_user = Some u \<and> res_status (fst (post_application isURL e st req_user b)) = 201 \<longrightarrow>
      (\<exists>row. applications (snd (post_application isURL e st req_user b)) = applications st @ [row] \<and>
             userId row = user_id u \<and> jobOfferId row = b_jobOfferId b))"
proof -
  have same: "post_application isURL e st req_user (b\<lparr>b_userId := x\<rparr>) =
     post_application isURL e st req_user (b\<lparr>b_userId := y\<rparr>)"
    by (simp add: post_application_def validateApplication_def
        cong: sum.case_cong option.case_cong)
  have row: "\<exists>row. applications (snd (post_application isURL e st req_user b)) = applications st @ [row] \<and>
             userId row = user_id u \<and> jobOfferId row = b_jobOfferId b"
    if u: "req_user = Some u" and ok: "res_status (fst (post_application isURL e st req_user b)) = 201"
  proof -
    let ?d = "\<lparr>d_jobOfferId = b_jobOfferId b, d_userId = user_id u,
               d_coverLetter = b_coverLetter b, d_resumeUrl = b_resumeUrl b\<rparr>"
    from u ok obtain a st' where c: "create e st ?d = Inr (a, st')"
      and p: "post_application isURL e st req_user b =
               (Response 201 True (Str ''Application submitted successfully'') a, st')"
      by (auto simp: post_application_def requireRole_def validateApplication_def
          split: if_splits option.splits sum.splits)
    from c obtain i where "insert_application e st (b_jobOfferId b) (user_id u)
         (b_coverLetter b) (b_resumeUrl b) = Inr (i, st')"
      by (auto simp: create_def create_insert_def split: option.splits sum.splits)
    from insert_application_appends[OF this] show ?thesis
      unfolding p by auto
  qed
  from same row show ?thesis by blast
qed

theorem payload_user_id_ignored_witness:
  "post_application example_isURL example_env example_state (Some \<lparr>user_id = 3, userType = job_seeker\<rparr>)
       (example_body\<lparr>b_userId := Some 5\<rparr>) =
   post_application example_isURL example_env example_state (Some \<lparr>user_id = 3, userType = job_seeker\<rparr>)
       (example_body\<lparr>b_userId := None\<rparr>) \<and>
   post_application example_isURL example_env example_state (Some \<lparr>user_id = 3, userType = job_seeker\<rparr>)
       example_body =
     (Response 201 True (Str ''Application submitted successfully'') (Some new_application),
      example_state\<lparr>applications := [pending_application, accepted_application, new_application],
                    next_application_id := 4\<rparr>) \<and>
   userId new_application = 3"
proof -
  have p: "post_application example_isURL example_env example_state
             (Some \<lparr>user_id = 3, userType = job_seeker\<rparr>) example_body =
     (Response 201 True (Str ''Application submitted successfully'') (Some new_application),
      example_state\<lparr>applications := [pending_application, accepted_application, new_application],
                    next_application_id := 4\<rparr>)"
    by (simp add: post_application_def requireRole_def validateApplication_def example_isURL_def
        create_def create_insert_def insert_application_def findByJobAndUser_def
        findById_def example_state_def example_env_def example_body_def new_application_def
        pending_application_def accepted_application_def)
  have n: "userId new_application = 3" by (simp add: new_application_def)
  from payload_user_id_ignored
    [where isURL = example_isURL and e = example_env and st = example_state
       and req_user = "Some \<lparr>user_id = 3, userType = job_seeker\<rparr>"
       and b = example_body and x = "Some 5" and y = None]
  have "post_application example_isURL example_env example_state (Some \<lparr>user_id = 3, userType = job_seeker\<rparr>)
       (example_body\<lparr>b_userId := Some 5\<rparr>) =
   post_application example_isURL example_env example_state (Some \<lparr>user_id = 3, userType = job_seeker\<rparr>)
       (example_body\<lparr>b_userId := None\<rparr>)" by (rule conjunct1)
  with p n show ?thesis by - (intro conjI; assumption)
qed

end
